theory Spec2Isabelle
  imports Complex_Main "HOL-Library.AList"
begin

section \<open>Path and string primitives used by the pipeline\<close>

text \<open>
  The pipeline manipulates POSIX paths through \<^verbatim>\<open>os.path\<close> and rewrites one file name
  with \<^verbatim>\<open>str.replace\<close>.  These library functions are pure string functions; they are
  written out here the way \<^verbatim>\<open>posixpath\<close> computes them, on \<open>string\<close>.
\<close>

definition sep :: char where
  "sep = CHR ''/''"

text \<open>\<^verbatim>\<open>s.startswith(p)\<close>.\<close>

definition startswith :: "string \<Rightarrow> string \<Rightarrow> bool" where
  "startswith s p = (take (length p) s = p)"

text \<open>\<^verbatim>\<open>s.endswith(p)\<close>.\<close>

definition endswith :: "string \<Rightarrow> string \<Rightarrow> bool" where
  "endswith s p = (length p \<le> length s \<and> drop (length s - length p) s = p)"

text \<open>\<^verbatim>\<open>p.rfind('/') + 1\<close>: the index just after the last separator, 0 without one.\<close>

definition rfind_sep_plus1 :: "string \<Rightarrow> nat" where
  "rfind_sep_plus1 p = length p - length (takeWhile (\<lambda>c. c \<noteq> sep) (rev p))"

text \<open>\<^verbatim>\<open>s.rstrip('/')\<close>.\<close>

definition rstrip_sep :: "string \<Rightarrow> string" where
  "rstrip_sep s = rev (dropWhile (\<lambda>c. c = sep) (rev s))"

text \<open>
  \<^verbatim>\<open>os.path.join(a, b)\<close>: an absolute \<open>b\<close> replaces \<open>a\<close>; otherwise \<open>b\<close> is appended,
  with a separator unless \<open>a\<close> is empty or already ends with one.
\<close>

definition path_join :: "string \<Rightarrow> string \<Rightarrow> string" where
  "path_join a b =
     (if startswith b [sep] then b
      else if a = [] \<or> endswith a [sep] then a @ b
      else a @ [sep] @ b)"

text \<open>\<^verbatim>\<open>os.path.dirname(p)\<close>.\<close>

definition path_dirname :: "string \<Rightarrow> string" where
  "path_dirname p =
     (let head = take (rfind_sep_plus1 p) p
      in if head \<noteq> [] \<and> head \<noteq> replicate (length head) sep then rstrip_sep head else head)"

text \<open>\<^verbatim>\<open>os.path.basename(p)\<close>.\<close>

definition path_basename :: "string \<Rightarrow> string" where
  "path_basename p = drop (rfind_sep_plus1 p) p"

text \<open>\<^verbatim>\<open>path.split('/')\<close>, with the component being read carried in \<open>cur\<close>.\<close>

fun split_sep :: "string \<Rightarrow> string \<Rightarrow> string list" where
  "split_sep cur [] = [cur]"
| "split_sep cur (c # cs) = (if c = sep then cur # split_sep [] cs else split_sep (cur @ [c]) cs)"

text \<open>
  The component loop of \<^verbatim>\<open>os.path.normpath\<close>: empty and \<^verbatim>\<open>.\<close> components are dropped,
  \<^verbatim>\<open>..\<close> removes the component before it, and is kept where there is nothing to remove
  in a relative path.
\<close>

fun norm_comps :: "nat \<Rightarrow> string list \<Rightarrow> string list \<Rightarrow> string list" where
  "norm_comps initial_slashes [] new_comps = new_comps"
| "norm_comps initial_slashes (cmp # comps) new_comps =
     (if cmp = [] \<or> cmp = ''.'' then norm_comps initial_slashes comps new_comps
      else if cmp \<noteq> ''..'' \<or> (initial_slashes = 0 \<and> new_comps = [])
                \<or> (new_comps \<noteq> [] \<and> last new_comps = ''..'')
        then norm_comps initial_slashes comps (new_comps @ [cmp])
      else if new_comps \<noteq> [] then norm_comps initial_slashes comps (butlast new_comps)
      else norm_comps initial_slashes comps new_comps)"

text \<open>\<^verbatim>\<open>'/'.join(comps)\<close>.\<close>

fun join_sep :: "string list \<Rightarrow> string" where
  "join_sep [] = []"
| "join_sep [c] = c"
| "join_sep (c # cs) = c @ [sep] @ join_sep cs"

text \<open>\<^verbatim>\<open>os.path.normpath(path)\<close>.\<close>

definition path_normpath :: "string \<Rightarrow> string" where
  "path_normpath path =
     (if path = [] then ''.''
      else
        let initial_slashes =
              (if startswith path [sep]
               then (if startswith path [sep, sep] \<and> \<not> startswith path [sep, sep, sep]
                     then 2 else 1)
               else 0);
            comps = norm_comps initial_slashes (split_sep [] path) [];
            p = replicate initial_slashes sep @ join_sep comps
        in if p = [] then ''.'' else p)"

text \<open>
  \<^verbatim>\<open>os.path.abspath(path)\<close>; the working directory \<open>cwd\<close> that \<^verbatim>\<open>os.getcwd()\<close> returns is
  an argument.
\<close>

definition path_abspath :: "string \<Rightarrow> string \<Rightarrow> string" where
  "path_abspath cwd path =
     path_normpath (if startswith path [sep] then path else path_join cwd path)"

text \<open>
  \<^verbatim>\<open>s.replace(old, new)\<close> for a non-empty \<open>old\<close>: every occurrence, scanning from the left
  without overlap.  (For an empty \<open>old\<close> Python inserts \<open>new\<close> around every character; the
  pipeline never calls it so, and the model returns \<open>s\<close> there.)
\<close>

function replace :: "string \<Rightarrow> string \<Rightarrow> string \<Rightarrow> string" where
  "replace old new s =
     (if old = [] \<or> s = [] then s
      else if startswith s old then new @ replace old new (drop (length old) s)
      else hd s # replace old new (tl s))"
  by pat_completeness auto
termination
  by (relation "measure (\<lambda>(old, new, s). length s)") (auto simp: startswith_def)

declare replace.simps [simp del]

text \<open>\<^verbatim>\<open>old in s\<close> on strings.\<close>

fun contains :: "string \<Rightarrow> string \<Rightarrow> bool" where
  "contains old [] = (old = [])"
| "contains old (c # cs) = (startswith (c # cs) old \<or> contains old cs)"

section \<open>Data model\<close>

text \<open>
  The exceptions of class \<^verbatim>\<open>Exception\<close> that the pipeline and its collaborators raise.
  Every \<^verbatim>\<open>except Exception\<close> of the source catches all of them.
\<close>

datatype exn =
    TypeError | IndexError | AttributeError | KeyError | ValueError
  | OSError | JSONDecodeError | BadZipFile | STACError | RuntimeError

text \<open>How a run of \<^verbatim>\<open>main\<close> ends abnormally: \<^verbatim>\<open>argparse\<close> leaves the process, or an exception
  is not caught.\<close>

datatype abort = SystemExit | Uncaught exn

datatype level = INFO | WARNING | ERROR

text \<open>
  What a run does to the outside, in order: the records it logs and the calls it makes to
  the file system and to its collaborators.  An error record carries the message of the
  source up to the text of the exception, which is left out.
\<close>

datatype event =
    Log level string
  | ReadCatalog string
  | ReadItem string
  | DownloadDem string
  | ExtractAll string
  | TerrainCorrection string string string
  | GetSize string
  | SaveCatalog string

datatype jvalue = JInt int | JStr string

text \<open>
  A Python \<^verbatim>\<open>dict\<close> with string keys is a list of pairs with distinct keys, in insertion
  order: \<open>map_of d k\<close> looks a key up, \<open>AList.update k v d\<close> is \<^verbatim>\<open>d[k] = v\<close>.
\<close>

record link =
  rel :: string
  target :: string

record asset =
  href :: string
  title :: "string option"
  description :: "string option"
  media_type :: "string option"
  roles :: "string list option"
  extra_fields :: "(string \<times> jvalue) list"

record geojson =
  geo_type :: string
  coordinates :: "real list list list"

record item =
  item_id :: string
  properties :: "(string \<times> jvalue) list"
  item_bbox :: "real list option"
  geometry :: "geojson option"
  assets :: "(string \<times> asset) list"
  self_href :: "string option"

record catalog =
  catalog_id :: string
  catalog_description :: string
  links :: "link list"

text \<open>The catalog that \<^verbatim>\<open>create_stage_out_catalog\<close> builds: identifier, description, href
  and the items added to it.\<close>

record stage_out =
  cat_id :: string
  cat_description :: string
  cat_href :: string
  cat_items :: "item list"

record Args =
  stac_catalog_folder :: "string option"
  bbox :: "real list"
  stac_asset_name :: string
  out_dir :: string

text \<open>The command line as \<^verbatim>\<open>argparse\<close> sees it: each option given or not.\<close>

record cli =
  opt_version :: bool
  opt_stac_catalog_folder :: "string option"
  opt_bbox :: "real list option"
  opt_stac_asset_name :: "string option"
  opt_out_dir :: "string option"

text \<open>
  The outside of the program: the working directory, the file system and the external
  libraries.  \<open>read_catalog\<close> and \<open>read_item\<close> stand for opening a file, \<^verbatim>\<open>json.load\<close> and
  \<^verbatim>\<open>pystac.Catalog.from_dict\<close> (\<^verbatim>\<open>Item.from_dict\<close>); \<open>extractall\<close> for opening an archive and
  extracting it: the top-level names it writes into the staging directory and the exception
  it ends with, if any; \<open>listdir\<close> for the order in which \<^verbatim>\<open>os.listdir\<close> reports the names of
  a directory; \<open>terrain_correction\<close> for \<^verbatim>\<open>sarsen.Sentinel1SarProduct\<close> followed by
  \<^verbatim>\<open>sarsen.terrain_correction\<close>, called with the product, the output path and the DEM path;
  \<open>make_relative_href\<close> for \<^verbatim>\<open>pystac.utils.make_relative_href\<close>; \<open>catalog_save\<close> for
  \<^verbatim>\<open>Catalog.save\<close>.
\<close>

record world =
  cwd :: string
  read_catalog :: "string \<Rightarrow> exn + catalog"
  read_item :: "string \<Rightarrow> exn + item"
  download_and_stitch :: "string \<Rightarrow> real list \<Rightarrow> exn option"
  extractall :: "string \<Rightarrow> string list \<times> exn option"
  listdir :: "string list \<Rightarrow> string list"
  terrain_correction :: "string \<Rightarrow> string \<Rightarrow> string \<Rightarrow> exn option"
  getsize :: "string \<Rightarrow> exn + nat"
  make_relative_href :: "string \<Rightarrow> string \<Rightarrow> string"
  catalog_save :: "stage_out \<Rightarrow> exn option"

text \<open>The mutable part: the names in the staging directory \<^verbatim>\<open>temp_extract\<close>, and the
  trace of events so far.\<close>

record state =
  temp_extract :: "string list"
  trace :: "event list"

definition emit :: "event \<Rightarrow> state \<Rightarrow> state" where
  "emit e s = s\<lparr>trace := trace s @ [e]\<rparr>"

text \<open>
  The decorator \<^verbatim>\<open>logtime\<close>: when the function it wraps has returned, the wrapper logs the
  record \<^verbatim>\<open>"%s: %.1f seconds"\<close> with the name of the function and returns the function's
  result unchanged; an exception of the function passes through the wrapper, which then
  logs nothing.  The number of seconds depends on the clock: the record keeps the format in
  its place.  \<open>r\<close> is what the wrapped function returned and the state it left.
\<close>

definition logtime :: "string \<Rightarrow> 'a \<times> state \<Rightarrow> 'a \<times> state" where
  "logtime func_name r = (fst r, emit (Log INFO (func_name @ '': %.1f seconds'')) (snd r))"

section \<open>Catalog reader\<close>

text \<open>The warning for an item without the requested asset:
  \<^verbatim>\<open>No '<name>' asset found in item <path>\<close>.\<close>

definition no_asset_message :: "string \<Rightarrow> string \<Rightarrow> string" where
  "no_asset_message name path =
     ''No '' @ [CHR 0x27] @ name @ [CHR 0x27] @ '' asset found in item '' @ path"

text \<open>
  The loop over \<^verbatim>\<open>catalog.links\<close> in \<^verbatim>\<open>get_s1_grd_path\<close>.  An exception while an item is
  read leaves the loop; the list \<^verbatim>\<open>s1_grd_paths\<close> built so far is kept, since the list is
  appended to in place.
\<close>

fun link_loop ::
  "world \<Rightarrow> string \<Rightarrow> string \<Rightarrow> link list \<Rightarrow> string list \<Rightarrow> state
     \<Rightarrow> (string list \<times> exn option) \<times> state" where
  "link_loop w json_file name [] s1_grd_paths s = ((s1_grd_paths, None), s)"
| "link_loop w json_file name (l # ls) s1_grd_paths s =
     (if rel l = ''item'' then
        (let absolute_link_href =
               path_normpath (path_join (path_dirname json_file) (target l));
             s1 = emit (ReadItem absolute_link_href) s
         in case read_item w absolute_link_href of
              Inl e \<Rightarrow> ((s1_grd_paths, Some e), s1)
            | Inr it \<Rightarrow>
                (case map_of (assets it) name of
                   Some a \<Rightarrow>
                     link_loop w json_file name ls
                       (s1_grd_paths @
                          [path_normpath
                             (path_join (path_dirname absolute_link_href) (href a))])
                       s1
                 | None \<Rightarrow>
                     link_loop w json_file name ls s1_grd_paths
                       (emit (Log WARNING (no_asset_message name absolute_link_href))
                          s1)))
      else link_loop w json_file name ls s1_grd_paths s)"

definition get_s1_grd_path :: "world \<Rightarrow> string \<Rightarrow> string \<Rightarrow> state \<Rightarrow> string list \<times> state" where
  "get_s1_grd_path w json_file name s =
     logtime ''get_s1_grd_path''
     (let s0 = emit (Log INFO ''Fetching S1 GRD product paths from the STAC catalog...'') s;
          s1 = emit (ReadCatalog json_file) s0
      in case read_catalog w json_file of
           Inl e \<Rightarrow> ([], emit (Log ERROR ''Error fetching S1 GRD product paths'') s1)
         | Inr cat \<Rightarrow>
             (if links cat \<noteq> [] then
                (case link_loop w json_file name (links cat) [] s1 of
                   ((paths, None), s2) \<Rightarrow> (paths, s2)
                 | ((paths, Some e), s2) \<Rightarrow>
                     (paths, emit (Log ERROR ''Error fetching S1 GRD product paths'') s2))
              else ([], emit (Log WARNING ''No links found in the STAC catalog.'') s1)))"

text \<open>The loop of \<^verbatim>\<open>retrieve_stac_item_by_rel\<close>: the item of the first link with the
  requested relation.\<close>

fun find_item ::
  "world \<Rightarrow> string \<Rightarrow> string \<Rightarrow> link list \<Rightarrow> state \<Rightarrow> (exn + item option) \<times> state" where
  "find_item w stac_catalog_file stac_item_rel [] s = (Inr None, s)"
| "find_item w stac_catalog_file stac_item_rel (l # ls) s =
     (if rel l \<noteq> stac_item_rel then find_item w stac_catalog_file stac_item_rel ls s
      else
        (let absolute_link_href =
               path_normpath (path_join (path_dirname stac_catalog_file) (target l));
             s1 = emit (ReadItem absolute_link_href) s
         in case read_item w absolute_link_href of
              Inl e \<Rightarrow> (Inl e, s1)
            | Inr it \<Rightarrow> (Inr (Some it), s1)))"

definition retrieve_stac_item_by_rel ::
  "world \<Rightarrow> string \<Rightarrow> string \<Rightarrow> state \<Rightarrow> item option \<times> state" where
  "retrieve_stac_item_by_rel w stac_catalog_file stac_item_rel s =
     (let s1 = emit (ReadCatalog stac_catalog_file) s
      in case read_catalog w stac_catalog_file of
           Inl e \<Rightarrow> (None, emit (Log ERROR ''Error retrieving the STAC item'') s1)
         | Inr cat \<Rightarrow>
             (if links cat = [] then
                (None, emit (Log WARNING ''No links found in the STAC catalog.'') s1)
              else
                (case find_item w stac_catalog_file stac_item_rel (links cat) s1 of
                   (Inl e, s2) \<Rightarrow> (None, emit (Log ERROR ''Error retrieving the STAC item'') s2)
                 | (Inr found, s2) \<Rightarrow> (found, s2))))"

section \<open>Collaborators: DEM, terrain correction, archive extraction\<close>

definition get_dem :: "world \<Rightarrow> real list \<Rightarrow> string \<Rightarrow> state \<Rightarrow> string \<times> state" where
  "get_dem w bbx output_dir s =
     logtime ''get_dem''
     (let s1 = emit (Log INFO ''Downloading DEM from Copernicus...'') s;
          dem_file = path_join output_dir ''dem.tif'';
          s2 = emit (DownloadDem dem_file) s1
      in case download_and_stitch w dem_file bbx of
           Some e \<Rightarrow> ('''', emit (Log ERROR ''Error downloading DEM'') s2)
         | None \<Rightarrow> (dem_file, s2))"

definition run_sarsen :: "world \<Rightarrow> string \<Rightarrow> string \<Rightarrow> string \<Rightarrow> state \<Rightarrow> string \<times> state" where
  "run_sarsen w s1_file dem_file output_dir s =
     logtime ''run_sarsen''
     (let s1 = emit (Log INFO ''Running SARsen on the S1 GRD product and the DEM...'') s;
          output_file =
            path_join output_dir
              (replace ''.SAFE'' ''_sarsen_output.tif'' (path_basename s1_file));
          s2 = emit (TerrainCorrection s1_file output_file dem_file) s1
      in case terrain_correction w s1_file output_file dem_file of
           Some e \<Rightarrow> ('''', emit (Log ERROR ''Error running SARsen'') s2)
         | None \<Rightarrow> (output_file, s2))"

text \<open>The staging directory after an extraction: the names it held, and the archive's
  top-level names that are new.\<close>

definition add_entries :: "string list \<Rightarrow> string list \<Rightarrow> string list" where
  "add_entries old new = old @ filter (\<lambda>x. x \<notin> set old) (remdups new)"

definition extract_zip :: "world \<Rightarrow> string \<Rightarrow> state \<Rightarrow> string \<times> state" where
  "extract_zip w zip_file s =
     (let s1 = emit (Log INFO (''Extracting zip file: '' @ zip_file)) s;
          temp_dir = path_abspath (cwd w) ''temp_extract'';
          s2 = (emit (ExtractAll zip_file) s1)
                 \<lparr>temp_extract := add_entries (temp_extract s1) (fst (extractall w zip_file))\<rparr>
      in case snd (extractall w zip_file) of
           Some e \<Rightarrow> ('''', emit (Log ERROR ''Error extracting zip file'') s2)
         | None \<Rightarrow>
             (case listdir w (temp_extract s2) of
                [] \<Rightarrow> ('''', emit (Log WARNING ''No files extracted from zip file.'') s2)
              | f # _ \<Rightarrow> (path_join temp_dir f, s2)))"

section \<open>Command line\<close>

text \<open>
  \<^verbatim>\<open>parse_args\<close>: \<^verbatim>\<open>--bbox\<close> (four floats) and \<^verbatim>\<open>--out_dir\<close> are required; \<^verbatim>\<open>--stac_asset_name\<close>
  defaults to \<^verbatim>\<open>PRODUCT\<close>; \<^verbatim>\<open>--stac_catalog_folder\<close> is not required and has no default, so
  it is \<^verbatim>\<open>None\<close> when omitted.  \<open>None\<close> as result: \<^verbatim>\<open>argparse\<close> printed the version or a
  usage error and left the process.
\<close>

definition parse_args :: "cli \<Rightarrow> Args option" where
  "parse_args c =
     (if opt_version c then None
      else case opt_bbox c of
             None \<Rightarrow> None
           | Some b \<Rightarrow>
               (if length b \<noteq> 4 then None
                else case opt_out_dir c of
                       None \<Rightarrow> None
                     | Some d \<Rightarrow>
                         Some \<lparr>stac_catalog_folder = opt_stac_catalog_folder c,
                               bbox = b,
                               stac_asset_name =
                                 (case opt_stac_asset_name c of
                                    None \<Rightarrow> ''PRODUCT'' | Some n \<Rightarrow> n),
                               out_dir = d\<rparr>))"

section \<open>Catalog writer\<close>

text \<open>\<^verbatim>\<open>bbox_to_geojson\<close>; unpacking a list that has not four elements raises
  \<^verbatim>\<open>ValueError\<close>.\<close>

fun bbox_to_geojson :: "real list \<Rightarrow> exn + geojson" where
  "bbox_to_geojson [min_lon, min_lat, max_lon, max_lat] =
     Inr \<lparr>geo_type = ''Polygon'',
          coordinates =
            [[[min_lon, min_lat],
              [max_lon, min_lat],
              [max_lon, max_lat],
              [min_lon, max_lat],
              [min_lon, min_lat]]]\<rparr>"
| "bbox_to_geojson _ = Inl ValueError"

text \<open>\<^verbatim>\<open>Item.clone\<close> and \<^verbatim>\<open>Asset.clone\<close> return a copy with the same attribute values.\<close>

definition clone_item :: "item \<Rightarrow> item" where
  "clone_item it = it"

definition clone_asset :: "asset \<Rightarrow> asset" where
  "clone_asset a = a"

text \<open>
  The first part of \<^verbatim>\<open>create_stage_out_catalog\<close>, up to the assignment to
  \<^verbatim>\<open>output_stac_item.assets\<close>: the item with its self href, title, bbox, geometry and the
  single asset \<^verbatim>\<open>output\<close>.  A missing asset name raises \<^verbatim>\<open>KeyError\<close>; \<^verbatim>\<open>os.path.getsize\<close>
  raises for a file that is not there.
\<close>

definition stage_out_item ::
  "world \<Rightarrow> string \<Rightarrow> item \<Rightarrow> real list \<Rightarrow> string \<Rightarrow> string \<Rightarrow> state \<Rightarrow> (exn + item) \<times> state" where
  "stage_out_item w output_dir output_stac_item bbx asset_name asset_path s =
     (let output_stac_item_path =
            path_abspath (cwd w)
              (path_join (path_join output_dir (item_id output_stac_item))
                 (item_id output_stac_item @ ''.json''));
          s1 = emit (Log INFO ''Creating STAC item {output_stac_item_path}'') s;
          it1 = output_stac_item
                  \<lparr>self_href := Some output_stac_item_path,
                   properties := AList.update ''title'' (JStr (path_basename asset_path))
                                   (properties output_stac_item),
                   item_bbox := Some bbx\<rparr>
      in case bbox_to_geojson bbx of
           Inl e \<Rightarrow> (Inl e, s1)
         | Inr g \<Rightarrow>
             (let it2 = it1\<lparr>geometry := Some g\<rparr>
              in case map_of (assets it2) asset_name of
                   None \<Rightarrow> (Inl KeyError, s1)
                 | Some a \<Rightarrow>
                     (let output_stac_asset_path = path_abspath (cwd w) asset_path;
                          s2 = emit (GetSize output_stac_asset_path) s1
                      in case getsize w output_stac_asset_path of
                           Inl e \<Rightarrow> (Inl e, s2)
                         | Inr n \<Rightarrow>
                             (let cloned = clone_asset a;
                                  output_stac_asset =
                                    cloned
                                      \<lparr>href := output_stac_asset_path,
                                       title := Some ''output'',
                                       media_type := Some ''image/tiff'',
                                       extra_fields :=
                                         AList.update ''file:size'' (JInt (int n))
                                           (extra_fields cloned),
                                       roles := Some [''data'']\<rparr>
                              in (Inr (it2\<lparr>assets := [(''output'', output_stac_asset)]\<rparr>),
                                  s2)))))"

text \<open>
  \<^verbatim>\<open>Item.make_asset_hrefs_relative\<close>: every asset whose href is an absolute path gets the
  href relative to the item's self href; without a self href that raises \<^verbatim>\<open>STACError\<close>.
\<close>

definition relative_asset :: "world \<Rightarrow> string \<Rightarrow> asset \<Rightarrow> asset" where
  "relative_asset w self a =
     (if startswith (href a) [sep] then a\<lparr>href := make_relative_href w (href a) self\<rparr> else a)"

definition make_asset_hrefs_relative :: "world \<Rightarrow> item \<Rightarrow> exn + item" where
  "make_asset_hrefs_relative w it =
     (case self_href it of
        None \<Rightarrow>
          (if filter (\<lambda>(k, a). startswith (href a) [sep]) (assets it) \<noteq> []
           then Inl STACError else Inr it)
      | Some self \<Rightarrow>
          Inr (it\<lparr>assets := map (\<lambda>(k, a). (k, relative_asset w self a)) (assets it)\<rparr>))"

text \<open>
  The whole of \<^verbatim>\<open>create_stage_out_catalog\<close>: the item as above, its asset hrefs made
  relative, then the catalog with the item added, saved.  \<^verbatim>\<open>pystac.Catalog\<close> keeps its href
  absolute: an href that is a relative path is resolved against the working directory.
\<close>

definition create_stage_out_catalog ::
  "world \<Rightarrow> string \<Rightarrow> item \<Rightarrow> real list \<Rightarrow> string \<Rightarrow> string \<Rightarrow> state
     \<Rightarrow> (exn + stage_out) \<times> state" where
  "create_stage_out_catalog w output_dir output_stac_item bbx asset_name asset_path s =
     (case stage_out_item w output_dir output_stac_item bbx asset_name asset_path s of
        (Inl e, s2) \<Rightarrow> (Inl e, s2)
      | (Inr it3, s2) \<Rightarrow>
          (case make_asset_hrefs_relative w it3 of
             Inl e \<Rightarrow> (Inl e, s2)
           | Inr it4 \<Rightarrow>
               (let output_stac_catalog_path = path_join output_dir ''catalog.json'';
                    s3 = emit (Log INFO (''Creating STAC catalog '' @ output_stac_catalog_path)) s2;
                    output_stac_catalog =
                      \<lparr>cat_id = ''SARsen output catalog'',
                       cat_description = ''SARsen output catalog'',
                       cat_href =
                         (if startswith output_stac_catalog_path [sep]
                          then output_stac_catalog_path
                          else path_abspath (cwd w) output_stac_catalog_path),
                       cat_items = [it4]\<rparr>;
                    s4 = emit (SaveCatalog output_stac_catalog_path) s3
                in case catalog_save w output_stac_catalog of
                     Some e \<Rightarrow> (Inl e, s4)
                   | None \<Rightarrow> (Inr output_stac_catalog, emit (Log INFO ''Stage out catalog created'') s4))))"

section \<open>Orchestrator\<close>

text \<open>
  The loop of \<^verbatim>\<open>main\<close> over \<^verbatim>\<open>s1_grd_paths\<close>.  A product whose extraction returns the empty
  string is logged and skipped; for every other product the result of \<^verbatim>\<open>run_sarsen\<close> is
  appended to \<^verbatim>\<open>output_files\<close>.
\<close>

fun product_loop ::
  "world \<Rightarrow> string \<Rightarrow> string \<Rightarrow> string list \<Rightarrow> string list \<Rightarrow> state \<Rightarrow> string list \<times> state" where
  "product_loop w dem_file output_dir [] output_files s = (output_files, s)"
| "product_loop w dem_file output_dir (s1_grd_path # rest) output_files s =
     (case extract_zip w s1_grd_path s of
        (extracted_s1_grd_path, s1) \<Rightarrow>
          (if extracted_s1_grd_path \<noteq> [] then
             (case run_sarsen w extracted_s1_grd_path dem_file output_dir s1 of
                (output_file, s2) \<Rightarrow>
                  product_loop w dem_file output_dir rest (output_files @ [output_file]) s2)
           else
             product_loop w dem_file output_dir rest output_files
               (emit (Log ERROR (''Error extracting zip file for '' @ s1_grd_path)) s1)))"

text \<open>
  \<^verbatim>\<open>main\<close>, decorated with \<^verbatim>\<open>logtime\<close>.  \<^verbatim>\<open>os.path.join\<close> raises \<^verbatim>\<open>TypeError\<close> on \<^verbatim>\<open>None\<close>.  The arguments of the call of
  \<^verbatim>\<open>create_stage_out_catalog\<close> are evaluated from left to right: \<^verbatim>\<open>.clone()\<close> on the \<^verbatim>\<open>None\<close>
  that \<^verbatim>\<open>retrieve_stac_item_by_rel\<close> returned raises \<^verbatim>\<open>AttributeError\<close>, and only then
  \<^verbatim>\<open>output_files[0]\<close> raises \<^verbatim>\<open>IndexError\<close> on an empty list.
\<close>

definition main :: "world \<Rightarrow> cli \<Rightarrow> state \<Rightarrow> (abort + unit) \<times> state" where
  "main w c s =
     (case parse_args c of
        None \<Rightarrow> (Inl SystemExit, s)
      | Some args \<Rightarrow>
          (case stac_catalog_folder args of
             None \<Rightarrow> (Inl (Uncaught TypeError), s)
           | Some folder \<Rightarrow>
               (let catalog_path = path_join folder ''catalog.json''
                in case get_s1_grd_path w catalog_path (stac_asset_name args) s of
                     (s1_grd_paths, s1) \<Rightarrow>
                (case get_dem w (bbox args) (out_dir args) s1 of
                     (dem_file, s2) \<Rightarrow>
                (case product_loop w dem_file (out_dir args) s1_grd_paths [] s2 of
                     (output_files, s3) \<Rightarrow>
                (case retrieve_stac_item_by_rel w catalog_path ''item''
                        (emit (Log INFO ''SARSEN process completed for all S1 GRD products.'') s3) of
                     (None, s5) \<Rightarrow> (Inl (Uncaught AttributeError), s5)
                   | (Some it, s5) \<Rightarrow>
                       (case output_files of
                          [] \<Rightarrow> (Inl (Uncaught IndexError), s5)
                        | output_file # _ \<Rightarrow>
                            (case create_stage_out_catalog w (out_dir args) (clone_item it)
                                    (bbox args) (stac_asset_name args) output_file s5 of
                               (Inl e, s6) \<Rightarrow> (Inl (Uncaught e), s6)
                             | (Inr _, s6) \<Rightarrow> logtime ''main'' (Inr (), s6)))))))))"

section \<open>What the catalog reader is specified to return\<close>

text \<open>The document a link of the catalog at \<open>json_file\<close> points to, and the file an href
  inside the item document at \<open>item_file\<close> points to: both relative to the directory of the
  referencing document.\<close>

definition link_path :: "string \<Rightarrow> link \<Rightarrow> string" where
  "link_path json_file l = path_normpath (path_join (path_dirname json_file) (target l))"

definition asset_path_of :: "string \<Rightarrow> asset \<Rightarrow> string" where
  "asset_path_of item_file a = path_normpath (path_join (path_dirname item_file) (href a))"

text \<open>
  The specification of \<^verbatim>\<open>list_item_asset_paths\<close> in its own words: for every link whose
  relation is \<^verbatim>\<open>item\<close>, the referenced item is loaded and, if it has an asset with the
  requested name, that asset's resolved href is appended; links of other relations, items
  that cannot be read and items without the asset contribute nothing.
\<close>

fun spec_item_asset_paths :: "world \<Rightarrow> string \<Rightarrow> string \<Rightarrow> link list \<Rightarrow> string list" where
  "spec_item_asset_paths w json_file name [] = []"
| "spec_item_asset_paths w json_file name (l # ls) =
     (if rel l = ''item'' then
        (case read_item w (link_path json_file l) of
           Inl e \<Rightarrow> []
         | Inr it \<Rightarrow>
             (case map_of (assets it) name of
                None \<Rightarrow> []
              | Some a \<Rightarrow> [asset_path_of (link_path json_file l) a]))
      else [])
     @ spec_item_asset_paths w json_file name ls"

text \<open>Whether the item document behind an \<^verbatim>\<open>item\<close> link can be read.\<close>

definition readable :: "world \<Rightarrow> string \<Rightarrow> link \<Rightarrow> bool" where
  "readable w json_file l =
     (case read_item w (link_path json_file l) of Inl e \<Rightarrow> rel l \<noteq> ''item'' | Inr it \<Rightarrow> True)"

section \<open>Reading a trace\<close>

text \<open>The archives a trace tried to extract, and the products it handed to the terrain
  correction, in order.\<close>

fun extract_attempts :: "event list \<Rightarrow> string list" where
  "extract_attempts [] = []"
| "extract_attempts (ExtractAll z # es) = z # extract_attempts es"
| "extract_attempts (e # es) = extract_attempts es"

fun correction_attempts :: "event list \<Rightarrow> string list" where
  "correction_attempts [] = []"
| "correction_attempts (TerrainCorrection p out dem # es) = p # correction_attempts es"
| "correction_attempts (e # es) = correction_attempts es"

text \<open>The events of \<open>s'\<close> that came after those of \<open>s\<close>.\<close>

definition new_events :: "state \<Rightarrow> state \<Rightarrow> event list" where
  "new_events s s' = drop (length (trace s)) (trace s')"

text \<open>The trace of \<open>s'\<close> continues the trace of \<open>s\<close>.\<close>

definition extends :: "state \<Rightarrow> state \<Rightarrow> bool" where
  "extends s s' = (\<exists>evs. trace s' = trace s @ evs)"

definition completed :: event where
  "completed = Log INFO ''SARSEN process completed for all S1 GRD products.''"

section \<open>Concrete file systems and runs\<close>

definition fresh :: state where
  "fresh = \<lparr>temp_extract = [], trace = []\<rparr>"

text \<open>A machine on which nothing can be read and every collaborator fails.\<close>

definition offline_world :: world where
  "offline_world =
     \<lparr>cwd = ''/w'',
      read_catalog = (\<lambda>p. Inl OSError),
      read_item = (\<lambda>p. Inl OSError),
      download_and_stitch = (\<lambda>p b. Some RuntimeError),
      extractall = (\<lambda>z. ([], Some BadZipFile)),
      listdir = (\<lambda>names. names),
      terrain_correction = (\<lambda>p out dem. Some RuntimeError),
      getsize = (\<lambda>p. Inl OSError),
      make_relative_href = (\<lambda>source start. source),
      catalog_save = (\<lambda>c. Some OSError)\<rparr>"

definition product_asset :: "string \<Rightarrow> asset" where
  "product_asset h =
     \<lparr>href = h, title = Some ''Sentinel-1 GRD'', description = None,
      media_type = Some ''application/zip'', roles = None, extra_fields = []\<rparr>"

definition product_item :: "string \<Rightarrow> string \<Rightarrow> item" where
  "product_item i h =
     \<lparr>item_id = i, properties = [], item_bbox = None, geometry = None,
      assets = [(''PRODUCT'', product_asset h), (''thumbnail'', product_asset ''./t.png'')],
      self_href = None\<rparr>"

definition item_link :: "string \<Rightarrow> link" where
  "item_link t = \<lparr>rel = ''item'', target = t\<rparr>"

definition command_line :: "string option \<Rightarrow> cli" where
  "command_line folder =
     \<lparr>opt_version = False,
      opt_stac_catalog_folder = folder,
      opt_bbox = Some [- 118.068, 34.222, - 118.058, 34.228],
      opt_stac_asset_name = None,
      opt_out_dir = Some ''/out''\<rparr>"

text \<open>The catalog \<^verbatim>\<open>/a/b/catalog.json\<close> links the item \<^verbatim>\<open>../c/item.json\<close>, whose asset
  \<^verbatim>\<open>PRODUCT\<close> has the href \<^verbatim>\<open>./product.zip\<close>.\<close>

definition nested_world :: world where
  "nested_world =
     offline_world
       \<lparr>read_catalog :=
          (\<lambda>p. if p = ''/a/b/catalog.json''
               then Inr \<lparr>catalog_id = ''in'', catalog_description = ''input'',
                         links = [\<lparr>rel = ''root'', target = ''./catalog.json''\<rparr>,
                                  item_link ''../c/item.json'']\<rparr>
               else Inl OSError),
        read_item :=
          (\<lambda>p. if p = ''/a/c/item.json'' then Inr (product_item ''item'' ''./product.zip'')
               else Inl OSError)\<rparr>"

text \<open>The catalog \<^verbatim>\<open>/in/catalog.json\<close> links two items; the second item document is not
  valid JSON.\<close>

definition broken_second_item_world :: world where
  "broken_second_item_world =
     offline_world
       \<lparr>read_catalog :=
          (\<lambda>p. if p = ''/in/catalog.json''
               then Inr \<lparr>catalog_id = ''in'', catalog_description = ''input'',
                         links = [item_link ''./i1.json'', item_link ''./i2.json'']\<rparr>
               else Inl OSError),
        read_item :=
          (\<lambda>p. if p = ''/in/i1.json'' then Inr (product_item ''i1'' ''./p1.zip'')
               else if p = ''/in/i2.json'' then Inl JSONDecodeError
               else Inl OSError)\<rparr>"

text \<open>Three archives; the second is corrupt, the others hold one product each, and the
  directory listing reports the newest name first.  The terrain correction works.\<close>

definition three_products_world :: world where
  "three_products_world =
     offline_world
       \<lparr>extractall :=
          (\<lambda>z. if z = ''/in/p1.zip'' then ([''P1.SAFE''], None)
               else if z = ''/in/p3.zip'' then ([''P3.SAFE''], None)
               else ([], Some BadZipFile)),
        listdir := rev,
        terrain_correction := (\<lambda>p out dem. None)\<rparr>"

text \<open>One archive that extracts, and a terrain correction that fails.\<close>

definition failing_correction_world :: world where
  "failing_correction_world =
     offline_world\<lparr>extractall := (\<lambda>z. ([''P1.SAFE''], None))\<rparr>"

text \<open>Two archives: the first holds one product, the second is a valid archive without
  entries.  The terrain correction works.\<close>

definition empty_archive_world :: world where
  "empty_archive_world =
     offline_world
       \<lparr>extractall :=
          (\<lambda>z. if z = ''/in/a.zip'' then ([''A.SAFE''], None)
               else if z = ''/in/b.zip'' then ([], None)
               else ([], Some BadZipFile)),
        terrain_correction := (\<lambda>p out dem. None)\<rparr>"

text \<open>A terrain correction that works.\<close>

definition correcting_world :: world where
  "correcting_world = offline_world\<lparr>terrain_correction := (\<lambda>p out dem. None)\<rparr>"

text \<open>The output file \<^verbatim>\<open>/out/x.tif\<close> exists with 2048 bytes; relative to the item document
  \<^verbatim>\<open>/out/i/i.json\<close> it is \<^verbatim>\<open>../x.tif\<close>; the catalog can be saved.\<close>

definition writing_world :: world where
  "writing_world =
     offline_world
       \<lparr>getsize := (\<lambda>p. if p = ''/out/x.tif'' then Inr 2048 else Inl OSError),
        make_relative_href :=
          (\<lambda>source start.
             if source = ''/out/x.tif'' \<and> start = ''/out/i/i.json'' then ''../x.tif''
             else source),
        catalog_save := (\<lambda>c. None)\<rparr>"

text \<open>The catalog \<^verbatim>\<open>/in/catalog.json\<close> links two items; the first item document is not
  valid JSON, the second holds the asset \<^verbatim>\<open>PRODUCT\<close> with the href \<^verbatim>\<open>./p2.zip\<close>.\<close>

definition broken_first_item_world :: world where
  "broken_first_item_world =
     offline_world
       \<lparr>read_catalog :=
          (\<lambda>p. if p = ''/in/catalog.json''
               then Inr \<lparr>catalog_id = ''in'', catalog_description = ''input'',
                         links = [item_link ''./i1.json'', item_link ''./i2.json'']\<rparr>
               else Inl OSError),
        read_item :=
          (\<lambda>p. if p = ''/in/i1.json'' then Inl JSONDecodeError
               else if p = ''/in/i2.json'' then Inr (product_item ''i2'' ''./p2.zip'')
               else Inl OSError)\<rparr>"

text \<open>An item without the asset \<^verbatim>\<open>PRODUCT\<close>.\<close>

definition thumbnail_item :: "string \<Rightarrow> item" where
  "thumbnail_item i =
     \<lparr>item_id = i, properties = [], item_bbox = None, geometry = None,
      assets = [(''thumbnail'', product_asset ''./t.png'')],
      self_href = None\<rparr>"

text \<open>
  A complete input: the catalog \<^verbatim>\<open>/in/catalog.json\<close> links one item whose asset \<^verbatim>\<open>PRODUCT\<close> is
  the archive \<^verbatim>\<open>/in/p1.zip\<close> holding \<^verbatim>\<open>P1.SAFE\<close>; the DEM download and the terrain correction
  work, the output file \<^verbatim>\<open>/out/P1_sarsen_output.tif\<close> has 2048 bytes, and the catalog can be
  saved.
\<close>

definition one_product_world :: world where
  "one_product_world =
     offline_world
       \<lparr>read_catalog :=
          (\<lambda>p. if p = ''/in/catalog.json''
               then Inr \<lparr>catalog_id = ''in'', catalog_description = ''input'',
                         links = [item_link ''./i1.json'']\<rparr>
               else Inl OSError),
        read_item :=
          (\<lambda>p. if p = ''/in/i1.json'' then Inr (product_item ''i1'' ''./p1.zip'')
               else Inl OSError),
        download_and_stitch := (\<lambda>p b. None),
        extractall :=
          (\<lambda>z. if z = ''/in/p1.zip'' then ([''P1.SAFE''], None) else ([], Some BadZipFile)),
        terrain_correction := (\<lambda>p out dem. None),
        getsize :=
          (\<lambda>p. if p = ''/out/P1_sarsen_output.tif'' then Inr 2048 else Inl OSError),
        make_relative_href :=
          (\<lambda>source start.
             if source = ''/out/P1_sarsen_output.tif'' \<and> start = ''/out/i1/i1.json''
             then ''../P1_sarsen_output.tif'' else source),
        catalog_save := (\<lambda>c. None)\<rparr>"

text \<open>The same input, but the only item has no asset \<^verbatim>\<open>PRODUCT\<close>.\<close>

definition no_product_asset_world :: world where
  "no_product_asset_world =
     one_product_world
       \<lparr>read_item :=
          (\<lambda>p. if p = ''/in/i1.json'' then Inr (thumbnail_item ''i1'') else Inl OSError)\<rparr>"

text \<open>The same input, but the catalog first links an item without the asset
  \<^verbatim>\<open>PRODUCT\<close>.\<close>

definition first_item_without_asset_world :: world where
  "first_item_without_asset_world =
     one_product_world
       \<lparr>read_catalog :=
          (\<lambda>p. if p = ''/in/catalog.json''
               then Inr \<lparr>catalog_id = ''in'', catalog_description = ''input'',
                         links = [item_link ''./i0.json'', item_link ''./i1.json'']\<rparr>
               else Inl OSError),
        read_item :=
          (\<lambda>p. if p = ''/in/i0.json'' then Inr (thumbnail_item ''i0'')
               else if p = ''/in/i1.json'' then Inr (product_item ''i1'' ''./p1.zip'')
               else Inl OSError)\<rparr>"

text \<open>The same input, but the terrain correction left no output file.\<close>

definition missing_output_world :: world where
  "missing_output_world = one_product_world\<lparr>getsize := (\<lambda>p. Inl OSError)\<rparr>"

text \<open>The same input, but the output catalog cannot be written.\<close>

definition unwritable_catalog_world :: world where
  "unwritable_catalog_world = one_product_world\<lparr>catalog_save := (\<lambda>c. Some OSError)\<rparr>"

section \<open>Evaluation and unfolding rules\<close>

lemmas path_defs =
  sep_def startswith_def endswith_def rfind_sep_plus1_def rstrip_sep_def path_join_def
  path_dirname_def path_basename_def path_normpath_def path_abspath_def

lemmas run_defs =
  emit_def logtime_def get_s1_grd_path_def retrieve_stac_item_by_rel_def get_dem_def run_sarsen_def
  add_entries_def extract_zip_def parse_args_def clone_item_def clone_asset_def
  stage_out_item_def relative_asset_def make_asset_hrefs_relative_def
  create_stage_out_catalog_def main_def

lemmas world_defs =
  fresh_def offline_world_def product_asset_def product_item_def item_link_def
  command_line_def nested_world_def broken_second_item_world_def three_products_world_def
  failing_correction_world_def empty_archive_world_def correcting_world_def writing_world_def
  broken_first_item_world_def thumbnail_item_def one_product_world_def
  no_product_asset_world_def first_item_without_asset_world_def missing_output_world_def
  unwritable_catalog_world_def

section \<open>The trace only grows\<close>

lemma extends_refl: "extends s s"
  by (simp add: extends_def)

lemma extends_trans: "extends s s1 \<Longrightarrow> extends s1 s2 \<Longrightarrow> extends s s2"
  by (auto simp: extends_def)

lemma extends_emit: "extends s (emit e s)"
  by (simp add: extends_def emit_def)

lemma extends_emit_after: "extends s s1 \<Longrightarrow> extends s (emit e s1)"
  by (auto simp: extends_def emit_def)

lemma new_events_extends:
  "extends s s' \<Longrightarrow> trace s' = trace s @ new_events s s'"
  by (auto simp: extends_def new_events_def)






lemma run_sarsen_extends: "extends s (snd (run_sarsen w p dem d s))"
  by (auto simp: run_sarsen_def logtime_def Let_def extends_def emit_def split: option.splits)

lemma extract_zip_extends: "extends s (snd (extract_zip w z s))"
  by (auto simp: extract_zip_def Let_def extends_def emit_def split: option.splits list.splits)

lemma product_loop_extends: "extends s (snd (product_loop w dem d ps outs s))"
proof (induction ps arbitrary: outs s)
  case Nil
  show ?case by (simp add: extends_refl)
next
  case (Cons p ps)
  obtain e s1 where ez: "extract_zip w p s = (e, s1)"
    by (cases "extract_zip w p s")
  have s1: "extends s s1"
    using extract_zip_extends [of s w p] ez by simp
  show ?case
  proof (cases "e = []")
    case True
    let ?s2 = "emit (Log ERROR (''Error extracting zip file for '' @ p)) s1"
    have "extends s ?s2"
      using s1 by (rule extends_emit_after)
    moreover have "extends ?s2 (snd (product_loop w dem d ps outs ?s2))"
      by (rule Cons.IH)
    ultimately have "extends s (snd (product_loop w dem d ps outs ?s2))"
      by (rule extends_trans)
    then show ?thesis
      using True ez by simp
  next
    case False
    obtain out s2 where rs: "run_sarsen w e dem d s1 = (out, s2)"
      by (cases "run_sarsen w e dem d s1")
    have "extends s1 s2"
      using run_sarsen_extends [of s1 w e dem d] rs by simp
    then have "extends s s2"
      using s1 extends_trans by blast
    moreover have "extends s2 (snd (product_loop w dem d ps (outs @ [out]) s2))"
      by (rule Cons.IH)
    ultimately have "extends s (snd (product_loop w dem d ps (outs @ [out]) s2))"
      by (rule extends_trans)
    then show ?thesis
      using False ez rs by simp
  qed
qed



section \<open>What the product loop attempts\<close>


lemma extract_attempts_append:
  "extract_attempts (xs @ ys) = extract_attempts xs @ extract_attempts ys"
  by (induction xs rule: extract_attempts.induct) simp_all

lemma correction_attempts_append:
  "correction_attempts (xs @ ys) = correction_attempts xs @ correction_attempts ys"
  by (induction xs rule: correction_attempts.induct) simp_all

lemma new_events_trans:
  "extends s s1 \<Longrightarrow> extends s1 s2 \<Longrightarrow> new_events s s2 = new_events s s1 @ new_events s1 s2"
  by (auto simp: extends_def new_events_def)

lemma new_events_emit: "new_events s (emit e s) = [e]"
  by (simp add: new_events_def emit_def)

lemma new_events_self: "new_events s s = []"
  by (simp add: new_events_def)

lemma extract_zip_new_events:
  "extract_attempts (new_events s (snd (extract_zip w z s))) = [z]
   \<and> correction_attempts (new_events s (snd (extract_zip w z s))) = []"
  by (auto simp: extract_zip_def Let_def new_events_def emit_def split: option.splits list.splits)

lemma run_sarsen_new_events:
  "extract_attempts (new_events s (snd (run_sarsen w p dem d s))) = []
   \<and> correction_attempts (new_events s (snd (run_sarsen w p dem d s))) = [p]"
  by (auto simp: run_sarsen_def logtime_def Let_def new_events_def emit_def split: option.splits)

lemma product_loop_append:
  "product_loop w dem d (ps @ qs) outs s =
     product_loop w dem d qs (fst (product_loop w dem d ps outs s))
       (snd (product_loop w dem d ps outs s))"
  by (induction ps arbitrary: outs s) (auto split: prod.splits)

lemma product_loop_extract_attempts:
  "extract_attempts (new_events s (snd (product_loop w dem d ps outs s))) = ps"
proof (induction ps arbitrary: outs s)
  case Nil
  show ?case by (simp add: new_events_self)
next
  case (Cons p ps)
  obtain e s1 where ez: "extract_zip w p s = (e, s1)"
    by (cases "extract_zip w p s")
  have x1: "extends s s1"
    using extract_zip_extends [of s w p] ez by simp
  have a1: "extract_attempts (new_events s s1) = [p]"
    using extract_zip_new_events [of s w p] ez by simp
  show ?case
  proof (cases "e = []")
    case True
    let ?s2 = "emit (Log ERROR (''Error extracting zip file for '' @ p)) s1"
    let ?s3 = "snd (product_loop w dem d ps outs ?s2)"
    have e2: "extends s1 ?s2"
      by (rule extends_emit)
    have e3: "extends ?s2 ?s3"
      by (rule product_loop_extends)
    have e13: "extends s1 ?s3"
      using e2 e3 by (rule extends_trans)
    have "new_events s ?s3 = new_events s s1 @ new_events s1 ?s3"
      using x1 e13 by (rule new_events_trans)
    moreover have "new_events s1 ?s3 = new_events s1 ?s2 @ new_events ?s2 ?s3"
      using e2 e3 by (rule new_events_trans)
    ultimately have "new_events s ?s3 = new_events s s1 @ new_events s1 ?s2 @ new_events ?s2 ?s3"
      by simp
    then have "extract_attempts (new_events s ?s3) = p # ps"
      using a1 Cons.IH
      by (simp add: extract_attempts_append new_events_emit)
    then show ?thesis
      using True ez by simp
  next
    case False
    obtain out s2 where rs: "run_sarsen w e dem d s1 = (out, s2)"
      by (cases "run_sarsen w e dem d s1")
    let ?s3 = "snd (product_loop w dem d ps (outs @ [out]) s2)"
    have x2: "extends s1 s2"
      using run_sarsen_extends [of s1 w e dem d] rs by simp
    have a2: "extract_attempts (new_events s1 s2) = []"
      using run_sarsen_new_events [of s1 w e dem d] rs by simp
    have e3: "extends s2 ?s3"
      by (rule product_loop_extends)
    have e13: "extends s1 ?s3"
      using x2 e3 by (rule extends_trans)
    have "new_events s ?s3 = new_events s s1 @ new_events s1 ?s3"
      using x1 e13 by (rule new_events_trans)
    moreover have "new_events s1 ?s3 = new_events s1 s2 @ new_events s2 ?s3"
      using x2 e3 by (rule new_events_trans)
    ultimately have "new_events s ?s3 = new_events s s1 @ new_events s1 s2 @ new_events s2 ?s3"
      by simp
    then have "extract_attempts (new_events s ?s3) = p # ps"
      using a1 a2 Cons.IH
      by (simp add: extract_attempts_append)
    then show ?thesis
      using False ez rs by simp
  qed
qed

lemma product_loop_single_success:
  assumes "fst (extract_zip w p s) \<noteq> []"
  shows "correction_attempts (new_events s (snd (product_loop w dem d [p] outs s))) =
           [fst (extract_zip w p s)]"
proof -
  obtain e s1 where ez: "extract_zip w p s = (e, s1)"
    by (cases "extract_zip w p s")
  obtain out s2 where rs: "run_sarsen w e dem d s1 = (out, s2)"
    by (cases "run_sarsen w e dem d s1")
  have x1: "extends s s1"
    using extract_zip_extends [of s w p] ez by simp
  have x2: "extends s1 s2"
    using run_sarsen_extends [of s1 w e dem d] rs by simp
  have "new_events s s2 = new_events s s1 @ new_events s1 s2"
    using x1 x2 by (rule new_events_trans)
  moreover have "correction_attempts (new_events s s1) = []"
    using extract_zip_new_events [of s w p] ez by simp
  moreover have "correction_attempts (new_events s1 s2) = [e]"
    using run_sarsen_new_events [of s1 w e dem d] rs by simp
  ultimately have "correction_attempts (new_events s s2) = [e]"
    by (simp add: correction_attempts_append)
  then show ?thesis
    using assms ez rs by simp
qed

lemma product_loop_single_failure:
  assumes "fst (extract_zip w p s) = []"
  shows "fst (product_loop w dem d [p] outs s) = outs
         \<and> correction_attempts (new_events s (snd (product_loop w dem d [p] outs s))) = []"
proof -
  obtain e s1 where ez: "extract_zip w p s = (e, s1)"
    by (cases "extract_zip w p s")
  let ?s2 = "emit (Log ERROR (''Error extracting zip file for '' @ p)) s1"
  have x1: "extends s s1"
    using extract_zip_extends [of s w p] ez by simp
  have "new_events s ?s2 = new_events s s1 @ new_events s1 ?s2"
    using x1 extends_emit by (rule new_events_trans)
  moreover have "correction_attempts (new_events s s1) = []"
    using extract_zip_new_events [of s w p] ez by simp
  ultimately have "correction_attempts (new_events s ?s2) = []"
    by (simp add: correction_attempts_append new_events_emit)
  then show ?thesis
    using assms ez by simp
qed

section \<open>The catalog reader loop, paths and file names\<close>

lemma link_loop_all_readable:
  "list_all (readable w f) ls \<Longrightarrow>
     fst (link_loop w f n ls acc s) = (acc @ spec_item_asset_paths w f n ls, None)"
  by (induction ls arbitrary: acc s)
     (auto simp: readable_def link_path_def asset_path_of_def Let_def
           split: sum.splits option.splits)

lemma link_loop_first_failure:
  "list_all (readable w f) pre \<Longrightarrow> rel l = ''item'' \<Longrightarrow>
   read_item w (link_path f l) = Inl e \<Longrightarrow>
     fst (link_loop w f n (pre @ l # post) acc s) = (acc @ spec_item_asset_paths w f n pre, Some e)"
  by (induction pre arbitrary: acc s)
     (auto simp: readable_def link_path_def asset_path_of_def Let_def
           split: sum.splits option.splits)

lemma link_loop_keeps_paths:
  "\<exists>more. fst (fst (link_loop w f n ls acc s)) = acc @ more"
proof (induction ls arbitrary: acc s)
  case Nil
  show ?case by simp
next
  case (Cons l ls)
  show ?case
  proof (cases "rel l = ''item''")
    case False
    then show ?thesis using Cons.IH by simp
  next
    case True
    let ?p = "path_normpath (path_join (path_dirname f) (target l))"
    show ?thesis
    proof (cases "read_item w ?p")
      case (Inl e)
      then show ?thesis using True by (simp add: Let_def)
    next
      case (Inr it)
      show ?thesis
      proof (cases "map_of (assets it) n")
        case None
        then show ?thesis using True Inr Cons.IH by (simp add: Let_def)
      next
        case (Some a)
        let ?q = "path_normpath (path_join (path_dirname ?p) (href a))"
        obtain more where
          "fst (fst (link_loop w f n ls (acc @ [?q]) (emit (ReadItem ?p) s))) = (acc @ [?q]) @ more"
          using Cons.IH by blast
        then show ?thesis using True Inr Some by (simp add: Let_def)
      qed
    qed
  qed
qed

lemma link_loop_reaches:
  assumes "list_all (readable w f) pre" and "rel l = ''item''"
    and "read_item w (link_path f l) = Inr it" and "map_of (assets it) n = Some a"
  shows "asset_path_of (link_path f l) a \<in> set (fst (fst (link_loop w f n (pre @ l # post) acc s)))"
  using assms
proof (induction pre arbitrary: acc s)
  case Nil
  obtain more where
    "fst (fst (link_loop w f n post (acc @ [asset_path_of (link_path f l) a])
                 (emit (ReadItem (link_path f l)) s)))
       = (acc @ [asset_path_of (link_path f l) a]) @ more"
    using link_loop_keeps_paths by blast
  then show ?case
    using Nil by (simp add: link_path_def asset_path_of_def Let_def)
next
  case (Cons x pre)
  then show ?case
    by (auto simp: readable_def link_path_def asset_path_of_def Let_def
             split: sum.splits option.splits)
qed

lemma link_loop_cwd:
  "fst (link_loop (w\<lparr>cwd := c\<rparr>) f n ls acc s) = fst (link_loop w f n ls acc s)"
  by (induction ls arbitrary: acc s)
     (auto simp: Let_def split: sum.splits option.splits)

lemma get_s1_grd_path_result:
  "fst (get_s1_grd_path w f n s) =
     (case read_catalog w f of
        Inl e \<Rightarrow> []
      | Inr cat \<Rightarrow>
          fst (fst (link_loop w f n (links cat) []
            (emit (ReadCatalog f)
               (emit (Log INFO ''Fetching S1 GRD product paths from the STAC catalog...'') s)))))"
  by (auto simp: get_s1_grd_path_def logtime_def Let_def
           split: sum.splits prod.splits option.splits)

lemma startswith_sep_normpath:
  "startswith p [sep] \<Longrightarrow> startswith (path_normpath p) [sep]"
  by (cases p) (auto simp: startswith_def path_normpath_def Let_def)

lemma startswith_sep_abspath:
  "startswith c [sep] \<Longrightarrow> startswith (path_abspath c p) [sep]"
  unfolding path_abspath_def
  by (rule startswith_sep_normpath) (cases c, auto simp: startswith_def path_join_def)

lemma no_safe_overlap:
  assumes "\<not> startswith (c # cs) ''.SAFE''"
  shows "\<not> startswith (c # cs @ ''.SAFE'') ''.SAFE''"
proof (cases cs)
  case Nil
  then show ?thesis by (auto simp: startswith_def)
next
  case c1: (Cons a1 r1)
  show ?thesis
  proof (cases r1)
    case Nil
    then show ?thesis using c1 by (auto simp: startswith_def)
  next
    case c2: (Cons a2 r2)
    show ?thesis
    proof (cases r2)
      case Nil
      then show ?thesis using c1 c2 by (auto simp: startswith_def)
    next
      case c3: (Cons a3 r3)
      show ?thesis
      proof (cases r3)
        case Nil
        then show ?thesis using c1 c2 c3 by (auto simp: startswith_def)
      next
        case c4: (Cons a4 r4)
        then show ?thesis using assms c1 c2 c3 by (auto simp: startswith_def)
      qed
    qed
  qed
qed

lemma replace_safe_suffix:
  "\<not> contains ''.SAFE'' stem \<Longrightarrow>
     replace ''.SAFE'' new (stem @ ''.SAFE'') = stem @ new"
proof (induction stem)
  case Nil
  have "replace ''.SAFE'' new ''.SAFE'' = new @ replace ''.SAFE'' new []"
    by (subst replace.simps) (simp add: startswith_def)
  also have "replace ''.SAFE'' new [] = []"
    by (subst replace.simps) simp
  finally show ?case by simp
next
  case (Cons c cs)
  have n1: "\<not> startswith (c # cs) ''.SAFE''" and n2: "\<not> contains ''.SAFE'' cs"
    using Cons.prems by simp_all
  have "\<not> startswith (c # cs @ ''.SAFE'') ''.SAFE''"
    using n1 by (rule no_safe_overlap)
  then have "replace ''.SAFE'' new ((c # cs) @ ''.SAFE'') = c # replace ''.SAFE'' new (cs @ ''.SAFE'')"
    by (subst replace.simps) simp
  then show ?case
    using Cons.IH n2 by simp
qed

lemma run_sarsen_result:
  "fst (run_sarsen w p dem d s) =
     (case terrain_correction w p
             (path_join d (replace ''.SAFE'' ''_sarsen_output.tif'' (path_basename p))) dem of
        Some e \<Rightarrow> []
      | None \<Rightarrow> path_join d (replace ''.SAFE'' ''_sarsen_output.tif'' (path_basename p)))"
  by (simp add: run_sarsen_def logtime_def Let_def split: option.splits)

section \<open>Claims\<close>

text \<open>
  C4.  For every bounding box \<open>(min_lon, min_lat, max_lon, max_lat)\<close>, \<^verbatim>\<open>bbox_to_geojson\<close>
  returns a polygon whose single ring is the five vertices south-west, south-east,
  north-east, north-west and south-west again, so that the ring is closed; for the box
  \<open>[-118.068, 34.222, -118.058, 34.228]\<close> the ring starts and ends at
  \<open>(-118.068, 34.222)\<close>.
\<close>

theorem bbox_to_geojson_closed_ring:
  "bbox_to_geojson [min_lon, min_lat, max_lon, max_lat] =
     Inr \<lparr>geo_type = ''Polygon'',
          coordinates = [[[min_lon, min_lat], [max_lon, min_lat], [max_lon, max_lat],
                          [min_lon, max_lat], [min_lon, min_lat]]]\<rparr>
   \<and> (\<exists>g ring. bbox_to_geojson [min_lon, min_lat, max_lon, max_lat] = Inr g
          \<and> coordinates g = [ring] \<and> length ring = 5 \<and> hd ring = last ring
          \<and> hd ring = [min_lon, min_lat])
   \<and> bbox_to_geojson [- 118.068, 34.222, - 118.058, 34.228] =
     Inr \<lparr>geo_type = ''Polygon'',
          coordinates = [[[- 118.068, 34.222], [- 118.058, 34.222], [- 118.058, 34.228],
                          [- 118.068, 34.228], [- 118.068, 34.222]]]\<rparr>"
  by simp

theorem bbox_to_geojson_closed_ring_witness:
  "bbox_to_geojson [0, 1, 2, 3] =
     Inr \<lparr>geo_type = ''Polygon'',
          coordinates = [[[0, 1], [2, 1], [2, 3], [0, 3], [0, 1]]]\<rparr>"
  using bbox_to_geojson_closed_ring [of 0 1 2 3] by simp

text \<open>
  C10.  \<^verbatim>\<open>--stac_catalog_folder\<close> is not required: a command line without it is accepted
  and gives \<^verbatim>\<open>None\<close> for the folder.  \<^verbatim>\<open>main\<close> then ends with an uncaught \<^verbatim>\<open>TypeError\<close>
  and an unchanged state: no catalog was read, no DEM downloaded, no product processed.
\<close>

theorem main_without_catalog_folder:
  assumes "\<not> opt_version c" and "opt_bbox c = Some b" and "length b = 4"
    and "opt_out_dir c = Some d" and "opt_stac_catalog_folder c = None"
  shows "(\<exists>args. parse_args c = Some args \<and> stac_catalog_folder args = None)
         \<and> main w c s = (Inl (Uncaught TypeError), s)"
  using assms by (simp add: parse_args_def main_def)

theorem main_without_catalog_folder_witness:
  "\<not> opt_version (command_line None)
   \<and> opt_bbox (command_line None) = Some [- 118.068, 34.222, - 118.058, 34.228]
   \<and> length [- 118.068, 34.222, - 118.058, 34.228 :: real] = 4
   \<and> opt_out_dir (command_line None) = Some ''/out''
   \<and> opt_stac_catalog_folder (command_line None) = None
   \<and> main offline_world (command_line None) fresh = (Inl (Uncaught TypeError), fresh)"
  using main_without_catalog_folder
    [of "command_line None" "[- 118.068, 34.222, - 118.058, 34.228]" "''/out''"
        offline_world fresh]
  by (simp add: command_line_def)

text \<open>
  C1.  A product whose archive extracts and whose terrain correction fails: the loop
  appends the empty path that \<^verbatim>\<open>run_sarsen\<close> returns, so \<^verbatim>\<open>output_files\<close> holds an empty
  path.
\<close>

theorem failed_correction_is_collected:
  "fst (product_loop failing_correction_world ''/out/dem.tif'' ''/out'' [''/in/p1.zip''] [] fresh)
     = ['''']"
  by (simp add: run_defs world_defs path_defs Let_def)

text \<open>
  C8.  The second archive of a run is a valid archive without entries.  \<^verbatim>\<open>extract_zip\<close>
  returns the entry that the first archive left in the staging directory, not the empty
  string.
\<close>

theorem empty_archive_returns_stale_entry:
  "fst (extract_zip empty_archive_world ''/in/b.zip''
          (snd (extract_zip empty_archive_world ''/in/a.zip'' fresh)))
     = ''/w/temp_extract/A.SAFE''"
  by (simp add: run_defs world_defs path_defs Let_def)

text \<open>
  C7.  The loop over the products never stops early.  Whatever fails, the archives it tries
  to extract are exactly the discovered products, in order; the products after any prefix
  are processed from the state and with the outputs that the prefix left; one product whose
  extraction succeeds is handed to the terrain correction, and one whose extraction fails
  adds no output.  With three products of which the second fails extraction, the first and
  the third are extracted and, when their extraction succeeds, corrected: the run of the
  three is the run of the third alone after the first and the failed second.
\<close>

theorem per_item_isolation:
  "extract_attempts (new_events s (snd (product_loop w dem d ps outs s))) = ps
   \<and> product_loop w dem d (ps @ qs) outs s =
       product_loop w dem d qs (fst (product_loop w dem d ps outs s))
         (snd (product_loop w dem d ps outs s))
   \<and> (fst (extract_zip w p s) \<noteq> [] \<longrightarrow>
        correction_attempts (new_events s (snd (product_loop w dem d [p] outs s))) =
          [fst (extract_zip w p s)])
   \<and> (fst (extract_zip w p s) = [] \<longrightarrow>
        fst (product_loop w dem d [p] outs s) = outs
        \<and> correction_attempts (new_events s (snd (product_loop w dem d [p] outs s))) = [])
   \<and> (fst (extract_zip w p2 (snd (product_loop w dem d [p1] [] s))) = [] \<longrightarrow>
        extract_attempts (new_events s (snd (product_loop w dem d [p1, p2, p3] [] s)))
          = [p1, p2, p3]
        \<and> product_loop w dem d [p1, p2, p3] [] s =
            product_loop w dem d [p3] (fst (product_loop w dem d [p1] [] s))
              (snd (product_loop w dem d [p2] (fst (product_loop w dem d [p1] [] s))
                      (snd (product_loop w dem d [p1] [] s)))))"
proof -
  have three: "product_loop w dem d [p1, p2, p3] [] s =
            product_loop w dem d [p3] (fst (product_loop w dem d [p1] [] s))
              (snd (product_loop w dem d [p2] (fst (product_loop w dem d [p1] [] s))
                      (snd (product_loop w dem d [p1] [] s))))"
    if "fst (extract_zip w p2 (snd (product_loop w dem d [p1] [] s))) = []"
  proof -
    let ?r1 = "product_loop w dem d [p1] [] s"
    let ?r2 = "product_loop w dem d [p2] (fst ?r1) (snd ?r1)"
    have "product_loop w dem d ([p1] @ [p2, p3]) [] s = product_loop w dem d [p2, p3] (fst ?r1) (snd ?r1)"
      by (rule product_loop_append)
    moreover have "product_loop w dem d ([p2] @ [p3]) (fst ?r1) (snd ?r1)
                     = product_loop w dem d [p3] (fst ?r2) (snd ?r2)"
      by (rule product_loop_append)
    moreover have "fst ?r2 = fst ?r1"
      using product_loop_single_failure [OF that] by simp
    ultimately show ?thesis by (simp del: product_loop.simps)
  qed
  have all: "extract_attempts (new_events s (snd (product_loop w dem d qs outs s))) = qs"
    for qs outs
    by (rule product_loop_extract_attempts)
  have split: "product_loop w dem d (ps @ qs) outs s =
       product_loop w dem d qs (fst (product_loop w dem d ps outs s))
         (snd (product_loop w dem d ps outs s))"
    by (rule product_loop_append)
  have ok: "correction_attempts (new_events s (snd (product_loop w dem d [p] outs s))) =
          [fst (extract_zip w p s)]"
    if "fst (extract_zip w p s) \<noteq> []"
    using that by (rule product_loop_single_success)
  have failed: "fst (product_loop w dem d [p] outs s) = outs
        \<and> correction_attempts (new_events s (snd (product_loop w dem d [p] outs s))) = []"
    if "fst (extract_zip w p s) = []"
    using that by (rule product_loop_single_failure)
  show ?thesis
    using all [of ps outs] all [of "[p1, p2, p3]" "[]"] split ok failed three
    by blast
qed

theorem per_item_isolation_witness:
  "fst (extract_zip three_products_world ''/in/p1.zip'' fresh) \<noteq> []
   \<and> fst (extract_zip three_products_world ''/in/p2.zip''
           (snd (product_loop three_products_world ''/out/dem.tif'' ''/out'' [''/in/p1.zip''] [] fresh))) = []
   \<and> extract_attempts (new_events fresh
         (snd (product_loop three_products_world ''/out/dem.tif'' ''/out''
                 [''/in/p1.zip'', ''/in/p2.zip'', ''/in/p3.zip''] [] fresh)))
       = [''/in/p1.zip'', ''/in/p2.zip'', ''/in/p3.zip'']
   \<and> correction_attempts (new_events fresh
         (snd (product_loop three_products_world ''/out/dem.tif'' ''/out'' [''/in/p1.zip''] [] fresh)))
       = [''/w/temp_extract/P1.SAFE'']
   \<and> correction_attempts (new_events fresh
         (snd (product_loop three_products_world ''/out/dem.tif'' ''/out''
                 [''/in/p1.zip'', ''/in/p2.zip'', ''/in/p3.zip''] [] fresh)))
       = [''/w/temp_extract/P1.SAFE'', ''/w/temp_extract/P3.SAFE'']"
  using per_item_isolation
    [of fresh three_products_world "''/out/dem.tif''" "''/out''"
        "[''/in/p1.zip'', ''/in/p2.zip'', ''/in/p3.zip'']" "[]" "[]" "''/in/p1.zip''"
        "''/in/p2.zip''" "''/in/p1.zip''" "''/in/p3.zip''"]
  by (simp add: run_defs world_defs path_defs Let_def new_events_def replace.simps)

text \<open>
  C3, as the code has it.  A catalog at \<open>P\<close> has a link \<open>l\<close> of relation \<^verbatim>\<open>item\<close>, and the item
  documents of the \<^verbatim>\<open>item\<close> links before it can be read, so that the loop reaches \<open>l\<close>; the item
  document of \<open>l\<close> holds the requested asset \<open>a\<close>.  Then the returned list contains the
  asset's href resolved against the directory of the item document, which is the link's
  target resolved against the directory of \<open>P\<close>; the working directory plays no part in the
  result.  For the catalog \<^verbatim>\<open>/a/b/catalog.json\<close> linking \<^verbatim>\<open>../c/item.json\<close> with the asset href
  \<^verbatim>\<open>./product.zip\<close> the result is \<^verbatim>\<open>/a/c/product.zip\<close>.
\<close>

theorem link_resolution_is_directory_relative:
  assumes "read_catalog w P = Inr cat"
    and "links cat = pre @ l # post"
    and "list_all (readable w P) pre"
    and "rel l = ''item''"
    and "read_item w (path_normpath (path_join (path_dirname P) (target l))) = Inr it"
    and "map_of (assets it) name = Some a"
  shows "path_normpath
           (path_join (path_dirname (path_normpath (path_join (path_dirname P) (target l))))
              (href a))
           \<in> set (fst (get_s1_grd_path w P name s))
         \<and> fst (get_s1_grd_path (w\<lparr>cwd := c\<rparr>) P name s) = fst (get_s1_grd_path w P name s)
         \<and> fst (get_s1_grd_path nested_world ''/a/b/catalog.json'' ''PRODUCT'' fresh)
             = [''/a/c/product.zip'']"
proof -
  let ?s1 = "emit (ReadCatalog P)
               (emit (Log INFO ''Fetching S1 GRD product paths from the STAC catalog...'') s)"
  have "asset_path_of (link_path P l) a
          \<in> set (fst (fst (link_loop w P name (pre @ l # post) [] ?s1)))"
    using assms(3,4,5,6) by (intro link_loop_reaches) (simp_all add: link_path_def)
  then have member: "path_normpath
           (path_join (path_dirname (path_normpath (path_join (path_dirname P) (target l))))
              (href a))
           \<in> set (fst (get_s1_grd_path w P name s))"
    using assms(1,2) by (simp add: get_s1_grd_path_result link_path_def asset_path_of_def)
  have cwd: "fst (get_s1_grd_path (w\<lparr>cwd := c\<rparr>) P name s) = fst (get_s1_grd_path w P name s)"
    by (simp add: get_s1_grd_path_result link_loop_cwd split: sum.splits)
  have nested: "fst (get_s1_grd_path nested_world ''/a/b/catalog.json'' ''PRODUCT'' fresh)
             = [''/a/c/product.zip'']"
    by (simp add: run_defs world_defs path_defs Let_def)
  show ?thesis
    using member cwd nested by blast
qed

theorem link_resolution_is_directory_relative_witness:
  "read_catalog nested_world ''/a/b/catalog.json'' =
     Inr \<lparr>catalog_id = ''in'', catalog_description = ''input'',
          links = [\<lparr>rel = ''root'', target = ''./catalog.json''\<rparr>] @
                  item_link ''../c/item.json'' # []\<rparr>
   \<and> list_all (readable nested_world ''/a/b/catalog.json'')
         [\<lparr>rel = ''root'', target = ''./catalog.json''\<rparr>]
   \<and> rel (item_link ''../c/item.json'') = ''item''
   \<and> read_item nested_world ''/a/c/item.json'' = Inr (product_item ''item'' ''./product.zip'')
   \<and> map_of (assets (product_item ''item'' ''./product.zip'')) ''PRODUCT''
       = Some (product_asset ''./product.zip'')
   \<and> ''/a/c/product.zip''
       \<in> set (fst (get_s1_grd_path nested_world ''/a/b/catalog.json'' ''PRODUCT'' fresh))"
  using link_resolution_is_directory_relative
    [of nested_world "''/a/b/catalog.json''"
        "\<lparr>catalog_id = ''in'', catalog_description = ''input'',
          links = [\<lparr>rel = ''root'', target = ''./catalog.json''\<rparr>, item_link ''../c/item.json'']\<rparr>"
        "[\<lparr>rel = ''root'', target = ''./catalog.json''\<rparr>]" "item_link ''../c/item.json''" "[]"
        "product_item ''item'' ''./product.zip''" "''PRODUCT''"
        "product_asset ''./product.zip''" fresh "''/elsewhere''"]
  by (simp add: world_defs path_defs readable_def link_path_def Let_def)

text \<open>
  C3 as stated fails: the catalog \<^verbatim>\<open>/in/catalog.json\<close> has the item link \<^verbatim>\<open>./i2.json\<close>, and
  that item holds the asset \<^verbatim>\<open>PRODUCT\<close> with the href \<^verbatim>\<open>./p2.zip\<close>; but the item document of
  the link before it cannot be parsed, the loop ends there, and the resolved path
  \<^verbatim>\<open>/in/p2.zip\<close> is not returned.
\<close>

theorem unreadable_earlier_item_hides_later_paths:
  "read_catalog broken_first_item_world ''/in/catalog.json'' =
     Inr \<lparr>catalog_id = ''in'', catalog_description = ''input'',
          links = [item_link ''./i1.json'', item_link ''./i2.json'']\<rparr>
   \<and> rel (item_link ''./i2.json'') = ''item''
   \<and> read_item broken_first_item_world
         (path_normpath (path_join (path_dirname ''/in/catalog.json'')
            (target (item_link ''./i2.json''))))
       = Inr (product_item ''i2'' ''./p2.zip'')
   \<and> map_of (assets (product_item ''i2'' ''./p2.zip'')) ''PRODUCT''
       = Some (product_asset ''./p2.zip'')
   \<and> path_normpath (path_join (path_dirname ''/in/i2.json'') (href (product_asset ''./p2.zip'')))
       = ''/in/p2.zip''
   \<and> fst (get_s1_grd_path broken_first_item_world ''/in/catalog.json'' ''PRODUCT'' fresh) = []"
  by (simp add: run_defs world_defs path_defs Let_def)

text \<open>
  C6, as the code has it.  When the catalog document cannot be read or parsed,
  \<^verbatim>\<open>get_s1_grd_path\<close> returns the empty list.  When the item document of a link cannot be
  read or parsed, it returns the paths of the links before that one (those the
  specification lists for them), and nothing for the links after it.  In both cases the
  error is logged, as the last record before the timing record of \<^verbatim>\<open>logtime\<close>, and the
  function returns.
\<close>

theorem reader_errors_are_caught:
  "(read_catalog w P = Inl e \<longrightarrow>
      fst (get_s1_grd_path w P name s) = []
      \<and> new_events s (snd (get_s1_grd_path w P name s))
          = [Log INFO ''Fetching S1 GRD product paths from the STAC catalog...'',
             ReadCatalog P,
             Log ERROR ''Error fetching S1 GRD product paths'',
             Log INFO ''get_s1_grd_path: %.1f seconds''])
   \<and> (read_catalog w P = Inr cat \<and> links cat = pre @ l # post
        \<and> list_all (readable w P) pre \<and> rel l = ''item''
        \<and> read_item w (link_path P l) = Inl e \<longrightarrow>
      fst (get_s1_grd_path w P name s) = spec_item_asset_paths w P name pre
      \<and> (\<exists>evs. trace (snd (get_s1_grd_path w P name s))
            = evs @ [Log ERROR ''Error fetching S1 GRD product paths'',
                     Log INFO ''get_s1_grd_path: %.1f seconds'']))"
proof (intro conjI impI)
  assume "read_catalog w P = Inl e"
  then show "fst (get_s1_grd_path w P name s) = []"
    and "new_events s (snd (get_s1_grd_path w P name s))
          = [Log INFO ''Fetching S1 GRD product paths from the STAC catalog...'',
             ReadCatalog P,
             Log ERROR ''Error fetching S1 GRD product paths'',
             Log INFO ''get_s1_grd_path: %.1f seconds'']"
    by (simp_all add: get_s1_grd_path_def logtime_def Let_def emit_def new_events_def)
next
  let ?s1 = "emit (ReadCatalog P)
               (emit (Log INFO ''Fetching S1 GRD product paths from the STAC catalog...'') s)"
  assume h: "read_catalog w P = Inr cat \<and> links cat = pre @ l # post
        \<and> list_all (readable w P) pre \<and> rel l = ''item''
        \<and> read_item w (link_path P l) = Inl e"
  then have ll: "fst (link_loop w P name (links cat) [] ?s1)
                   = (spec_item_asset_paths w P name pre, Some e)"
    using link_loop_first_failure [of w P pre l e name post "[]" ?s1] by simp
  obtain s2 where s2: "link_loop w P name (links cat) [] ?s1
                   = ((spec_item_asset_paths w P name pre, Some e), s2)"
    using ll by (cases "link_loop w P name (links cat) [] ?s1") simp
  show "fst (get_s1_grd_path w P name s) = spec_item_asset_paths w P name pre"
    using h s2 by (simp add: get_s1_grd_path_def logtime_def Let_def emit_def)
  have "trace (snd (get_s1_grd_path w P name s))
          = trace s2 @ [Log ERROR ''Error fetching S1 GRD product paths'',
                        Log INFO ''get_s1_grd_path: %.1f seconds'']"
    using h s2 by (simp add: get_s1_grd_path_def logtime_def Let_def emit_def)
  then show "\<exists>evs. trace (snd (get_s1_grd_path w P name s))
            = evs @ [Log ERROR ''Error fetching S1 GRD product paths'',
                     Log INFO ''get_s1_grd_path: %.1f seconds'']"
    by blast
qed

theorem reader_errors_are_caught_witness:
  "read_catalog offline_world ''/in/catalog.json'' = Inl OSError
   \<and> fst (get_s1_grd_path offline_world ''/in/catalog.json'' ''PRODUCT'' fresh) = []
   \<and> read_catalog broken_second_item_world ''/in/catalog.json'' =
       Inr \<lparr>catalog_id = ''in'', catalog_description = ''input'',
            links = [item_link ''./i1.json''] @ item_link ''./i2.json'' # []\<rparr>
   \<and> list_all (readable broken_second_item_world ''/in/catalog.json'') [item_link ''./i1.json'']
   \<and> read_item broken_second_item_world (link_path ''/in/catalog.json'' (item_link ''./i2.json''))
       = Inl JSONDecodeError
   \<and> fst (get_s1_grd_path broken_second_item_world ''/in/catalog.json'' ''PRODUCT'' fresh)
       = spec_item_asset_paths broken_second_item_world ''/in/catalog.json'' ''PRODUCT''
           [item_link ''./i1.json'']
   \<and> spec_item_asset_paths broken_second_item_world ''/in/catalog.json'' ''PRODUCT''
           [item_link ''./i1.json''] = [''/in/p1.zip'']"
  using reader_errors_are_caught
    [of offline_world "''/in/catalog.json''" OSError "''PRODUCT''" fresh]
    reader_errors_are_caught
    [of broken_second_item_world "''/in/catalog.json''" JSONDecodeError "''PRODUCT''" fresh
        "\<lparr>catalog_id = ''in'', catalog_description = ''input'',
          links = [item_link ''./i1.json'', item_link ''./i2.json'']\<rparr>"
        "[item_link ''./i1.json'']" "item_link ''./i2.json''" "[]"]
  by (simp add: world_defs path_defs readable_def link_path_def asset_path_of_def Let_def)

text \<open>
  C6 as stated fails: the second item document of the catalog is not valid JSON, and the
  path collected from the first item is returned all the same.
\<close>

theorem partial_result_after_item_error:
  "read_item broken_second_item_world ''/in/i2.json'' = Inl JSONDecodeError
   \<and> fst (get_s1_grd_path broken_second_item_world ''/in/catalog.json'' ''PRODUCT'' fresh)
       = [''/in/p1.zip'']"
  by (simp add: run_defs world_defs path_defs Let_def)

lemma basename_is_last_component:
  "path_basename p = rev (takeWhile (\<lambda>c. c \<noteq> sep) (rev p))"
proof -
  let ?k = "length (takeWhile (\<lambda>c. c \<noteq> sep) (rev p))"
  have "takeWhile (\<lambda>c. c \<noteq> sep) (rev p) = take ?k (rev p)"
    by (rule takeWhile_eq_take)
  then have "rev (takeWhile (\<lambda>c. c \<noteq> sep) (rev p)) = rev (take ?k (rev p))"
    by (rule arg_cong)
  also have "\<dots> = drop (length p - ?k) p"
    by (simp only: take_rev rev_rev_ident length_rev)
  finally show ?thesis
    by (simp only: path_basename_def rfind_sep_plus1_def)
qed

lemma basename_has_no_sep: "sep \<notin> set (path_basename p)"
  using set_takeWhileD [of sep "\<lambda>c. c \<noteq> sep" "rev p"]
  by (auto simp: basename_is_last_component)

text \<open>
  C9, as the code has it.  When the terrain correction succeeds, \<^verbatim>\<open>run_sarsen\<close> returns the
  output directory joined with the product's base name in which every occurrence of
  \<^verbatim>\<open>.SAFE\<close> is replaced by \<^verbatim>\<open>_sarsen_output.tif\<close>.  For a base name \<open>stem.SAFE\<close> whose stem
  does not contain \<^verbatim>\<open>.SAFE\<close>, that is \<open>stem_sarsen_output.tif\<close> in the output directory:
  \<^verbatim>\<open><out_dir>/<stem>_sarsen_output.tif\<close> for a non-empty output directory that does not end
  with a separator.
\<close>

theorem run_sarsen_output_path:
  assumes "terrain_correction w p
             (path_join d (replace ''.SAFE'' ''_sarsen_output.tif'' (path_basename p))) dem = None"
  shows "fst (run_sarsen w p dem d s) =
           path_join d (replace ''.SAFE'' ''_sarsen_output.tif'' (path_basename p))
         \<and> (path_basename p = stem @ ''.SAFE'' \<and> \<not> contains ''.SAFE'' stem \<longrightarrow>
               fst (run_sarsen w p dem d s) = path_join d (stem @ ''_sarsen_output.tif''))
         \<and> (path_basename p = stem @ ''.SAFE'' \<and> \<not> contains ''.SAFE'' stem
             \<and> d \<noteq> [] \<and> \<not> endswith d [sep] \<longrightarrow>
               fst (run_sarsen w p dem d s) = d @ ''/'' @ stem @ ''_sarsen_output.tif'')"
proof -
  have r: "fst (run_sarsen w p dem d s) =
           path_join d (replace ''.SAFE'' ''_sarsen_output.tif'' (path_basename p))"
    using assms by (simp add: run_sarsen_result)
  have j: "path_join d (stem @ ''_sarsen_output.tif'') = d @ ''/'' @ stem @ ''_sarsen_output.tif''"
    if "path_basename p = stem @ ''.SAFE''" and "d \<noteq> []" and "\<not> endswith d [sep]"
  proof -
    have "sep \<notin> set (stem @ ''.SAFE'')"
      using basename_has_no_sep [of p] that(1) by simp
    then have "\<not> startswith (stem @ ''_sarsen_output.tif'') [sep]"
      by (cases stem) (auto simp: startswith_def sep_def)
    then show ?thesis
      using that(2,3) by (simp add: path_join_def sep_def)
  qed
  show ?thesis
    using r j by (auto simp: replace_safe_suffix)
qed

theorem run_sarsen_output_path_witness:
  "terrain_correction correcting_world ''/w/temp_extract/S1A_IW_GRDH.SAFE''
     (path_join ''/out''
        (replace ''.SAFE'' ''_sarsen_output.tif''
           (path_basename ''/w/temp_extract/S1A_IW_GRDH.SAFE''))) ''/out/dem.tif'' = None
   \<and> path_basename ''/w/temp_extract/S1A_IW_GRDH.SAFE'' = ''S1A_IW_GRDH'' @ ''.SAFE''
   \<and> \<not> contains ''.SAFE'' ''S1A_IW_GRDH''
   \<and> ''/out'' \<noteq> [] \<and> \<not> endswith ''/out'' [sep]
   \<and> fst (run_sarsen correcting_world ''/w/temp_extract/S1A_IW_GRDH.SAFE'' ''/out/dem.tif''
            ''/out'' fresh)
       = ''/out/S1A_IW_GRDH_sarsen_output.tif''"
  using run_sarsen_output_path
    [of correcting_world "''/w/temp_extract/S1A_IW_GRDH.SAFE''" "''/out''" "''/out/dem.tif''"
        fresh "''S1A_IW_GRDH''"]
  by (simp add: world_defs path_defs replace.simps)

text \<open>
  C9 as stated fails: the base name \<^verbatim>\<open>A.SAFE.SAFE\<close> ends in \<^verbatim>\<open>.SAFE\<close> with the stem
  \<^verbatim>\<open>A.SAFE\<close>, and the output is not the stem followed by \<^verbatim>\<open>_sarsen_output.tif\<close>.
\<close>

theorem every_safe_occurrence_is_replaced:
  "path_basename ''/t/A.SAFE.SAFE'' = ''A.SAFE'' @ ''.SAFE''
   \<and> fst (run_sarsen correcting_world ''/t/A.SAFE.SAFE'' ''/out/dem.tif'' ''/out'' fresh)
       = ''/out/A_sarsen_output.tif_sarsen_output.tif''
   \<and> fst (run_sarsen correcting_world ''/t/A.SAFE.SAFE'' ''/out/dem.tif'' ''/out'' fresh)
       \<noteq> ''/out/'' @ ''A.SAFE'' @ ''_sarsen_output.tif''"
  by (simp add: run_defs world_defs path_defs Let_def replace.simps)

section \<open>The run reaches the end of the product loop\<close>












text \<open>
  Each way of ending that the characterisation of \<^verbatim>\<open>main\<close> lists does occur: a run that
  returns, the exit of \<^verbatim>\<open>argparse\<close> for a command line without \<^verbatim>\<open>--bbox\<close>, \<^verbatim>\<open>IndexError\<close> when
  the only item has no asset \<^verbatim>\<open>PRODUCT\<close>, \<^verbatim>\<open>KeyError\<close> when the first item has no asset
  \<^verbatim>\<open>PRODUCT\<close> and a later one has, the error of \<^verbatim>\<open>os.path.getsize\<close> when the output file is
  missing, and the error of \<^verbatim>\<open>Catalog.save\<close>.
\<close>

lemma main_can_return:
  "fst (main one_product_world (command_line (Some ''/in'')) fresh) = Inr ()"
  by (simp add: run_defs world_defs path_defs Let_def replace.simps)

lemma main_can_exit_in_argparse:
  "main one_product_world (command_line (Some ''/in'') \<lparr>opt_bbox := None\<rparr>) fresh
     = (Inl SystemExit, fresh)"
  by (simp add: run_defs world_defs)

lemma main_can_raise_index_error:
  "fst (main no_product_asset_world (command_line (Some ''/in'')) fresh)
     = Inl (Uncaught IndexError)"
  by (simp add: run_defs world_defs path_defs Let_def no_asset_message_def)

lemma main_can_raise_key_error:
  "fst (main first_item_without_asset_world (command_line (Some ''/in'')) fresh)
     = Inl (Uncaught KeyError)"
  by (simp add: run_defs world_defs path_defs Let_def replace.simps no_asset_message_def)

lemma main_can_raise_getsize_error:
  "getsize missing_output_world ''/out/P1_sarsen_output.tif'' = Inl OSError
   \<and> fst (main missing_output_world (command_line (Some ''/in'')) fresh)
       = Inl (Uncaught OSError)"
  by (simp add: run_defs world_defs path_defs Let_def replace.simps)

lemma main_can_raise_save_error:
  "getsize unwritable_catalog_world ''/out/P1_sarsen_output.tif'' = Inr 2048
   \<and> fst (main unwritable_catalog_world (command_line (Some ''/in'')) fresh)
       = Inl (Uncaught OSError)"
  by (simp add: run_defs world_defs path_defs Let_def replace.simps)

lemma bbox_of_four:
  "bbox_to_geojson [x1, y1, x2, y2] =
     Inr \<lparr>geo_type = ''Polygon'',
          coordinates = [[[x1, y1], [x2, y1], [x2, y2], [x1, y2], [x1, y1]]]\<rparr>"
  by simp

text \<open>
  C5, as the code has it.  The representative item has an asset \<open>asset_name\<close>, the output
  file exists with \<open>n\<close> bytes, and the catalog can be saved.  When
  \<^verbatim>\<open>create_stage_out_catalog\<close> assigns the asset mapping, the mapping is the single entry
  \<^verbatim>\<open>output\<close>: the clone of the original asset with the href set to the absolute path of the
  output file, the title \<^verbatim>\<open>output\<close>, the media type \<^verbatim>\<open>image/tiff\<close>, the roles \<^verbatim>\<open>["data"]\<close> and
  \<^verbatim>\<open>file:size\<close> set to \<open>n\<close>.  The function then makes the asset hrefs relative: in the catalog
  it returns, the item's asset mapping is that single entry with the href made relative to
  the item's self href; the other attributes are unchanged and no earlier asset is left.
\<close>

theorem stage_out_assets:
  assumes "map_of (assets it) asset_name = Some a"
    and "getsize w (path_abspath (cwd w) asset_path) = Inr n"
    and "startswith (cwd w) [sep]"
    and "\<And>cat. catalog_save w cat = None"
  shows "(\<exists>it3 s2. stage_out_item w d it [x1, y1, x2, y2] asset_name asset_path s = (Inr it3, s2)
            \<and> assets it3 =
                [(''output'',
                  (clone_asset a)
                    \<lparr>href := path_abspath (cwd w) asset_path,
                     title := Some ''output'',
                     media_type := Some ''image/tiff'',
                     roles := Some [''data''],
                     extra_fields :=
                       AList.update ''file:size'' (JInt (int n)) (extra_fields a)\<rparr>)])
         \<and> (\<exists>cat it4 s3.
               create_stage_out_catalog w d it [x1, y1, x2, y2] asset_name asset_path s
                 = (Inr cat, s3)
               \<and> cat_items cat = [it4]
               \<and> assets it4 =
                   [(''output'',
                     (clone_asset a)
                       \<lparr>href :=
                          make_relative_href w (path_abspath (cwd w) asset_path)
                            (path_abspath (cwd w)
                               (path_join (path_join d (item_id it)) (item_id it @ ''.json''))),
                        title := Some ''output'',
                        media_type := Some ''image/tiff'',
                        roles := Some [''data''],
                        extra_fields :=
                          AList.update ''file:size'' (JInt (int n)) (extra_fields a)\<rparr>)]
               \<and> map_of (extra_fields (snd (hd (assets it4)))) ''file:size'' = Some (JInt (int n)))"
proof -
  have abs: "startswith (path_abspath (cwd w) asset_path) [sep]"
    using assms(3) by (rule startswith_sep_abspath)
  have item: "stage_out_item w d it [x1, y1, x2, y2] asset_name asset_path s =
     (Inr (it\<lparr>self_href := Some (path_abspath (cwd w)
                 (path_join (path_join d (item_id it)) (item_id it @ ''.json''))),
               properties := AList.update ''title'' (JStr (path_basename asset_path)) (properties it),
               item_bbox := Some [x1, y1, x2, y2],
               geometry := Some \<lparr>geo_type = ''Polygon'',
                  coordinates = [[[x1, y1], [x2, y1], [x2, y2], [x1, y2], [x1, y1]]]\<rparr>,
               assets := [(''output'',
                  (clone_asset a)
                    \<lparr>href := path_abspath (cwd w) asset_path,
                     title := Some ''output'',
                     media_type := Some ''image/tiff'',
                     roles := Some [''data''],
                     extra_fields :=
                       AList.update ''file:size'' (JInt (int n)) (extra_fields a)\<rparr>)]\<rparr>),
      emit (GetSize (path_abspath (cwd w) asset_path))
        (emit (Log INFO ''Creating STAC item {output_stac_item_path}'') s))"
    using assms(1,2)
    by (simp add: stage_out_item_def Let_def clone_asset_def del: bbox_to_geojson.simps
             add: bbox_of_four)
  show ?thesis
    using abs assms(4)
    by (simp add: item create_stage_out_catalog_def make_asset_hrefs_relative_def
          relative_asset_def Let_def clone_asset_def update_Some_unfold)
qed

theorem stage_out_assets_witness:
  "map_of (assets (product_item ''i'' ''./p.zip'')) ''PRODUCT'' = Some (product_asset ''./p.zip'')
   \<and> getsize writing_world (path_abspath (cwd writing_world) ''/out/x.tif'') = Inr 2048
   \<and> startswith (cwd writing_world) [sep]
   \<and> catalog_save writing_world = (\<lambda>cat. None)
   \<and> (\<exists>cat it4 s3.
         create_stage_out_catalog writing_world ''/out'' (product_item ''i'' ''./p.zip'')
             [0, 0, 1, 1] ''PRODUCT'' ''/out/x.tif'' fresh
           = (Inr cat, s3)
         \<and> cat_items cat = [it4]
         \<and> assets it4 =
             [(''output'',
               \<lparr>href = ''../x.tif'', title = Some ''output'', description = None,
                media_type = Some ''image/tiff'', roles = Some [''data''],
                extra_fields = [(''file:size'', JInt 2048)]\<rparr>)])"
  using stage_out_assets
    [of "product_item ''i'' ''./p.zip''" "''PRODUCT''" "product_asset ''./p.zip''" writing_world
        "''/out/x.tif''" 2048 "''/out''" 0 0 1 1 fresh]
  by (auto simp: world_defs path_defs clone_asset_def)

text \<open>
  C5 as stated fails: after \<^verbatim>\<open>create_stage_out_catalog\<close> the href of the asset \<^verbatim>\<open>output\<close> is
  \<^verbatim>\<open>../x.tif\<close>, relative to the item document \<^verbatim>\<open>/out/i/i.json\<close>, not the absolute path
  \<^verbatim>\<open>/out/x.tif\<close> of the output file.
\<close>

theorem output_href_is_relative:
  "path_abspath (cwd writing_world) ''/out/x.tif'' = ''/out/x.tif''
   \<and> fst (create_stage_out_catalog writing_world ''/out'' (product_item ''i'' ''./p.zip'')
            [0, 0, 1, 1] ''PRODUCT'' ''/out/x.tif'' fresh)
       = Inr \<lparr>cat_id = ''SARsen output catalog'',
              cat_description = ''SARsen output catalog'',
              cat_href = ''/out/catalog.json'',
              cat_items =
                [\<lparr>item_id = ''i'', properties = [(''title'', JStr ''x.tif'')],
                  item_bbox = Some [0, 0, 1, 1],
                  geometry =
                    Some \<lparr>geo_type = ''Polygon'',
                          coordinates = [[[0, 0], [1, 0], [1, 1], [0, 1], [0, 0]]]\<rparr>,
                  assets =
                    [(''output'',
                      \<lparr>href = ''../x.tif'', title = Some ''output'', description = None,
                       media_type = Some ''image/tiff'', roles = Some [''data''],
                       extra_fields = [(''file:size'', JInt 2048)]\<rparr>)],
                  self_href = Some ''/out/i/i.json''\<rparr>]\<rparr>"
  by (simp add: run_defs world_defs path_defs Let_def)

end
